theory Spec2Isabelle
  imports Main "HOL-Library.Sublist"
begin

section \<open>Data model of \<open>server.py\<close>\<close>

text \<open>
  Strings are lists of characters: the module only tests them for emptiness,
  concatenates them and passes them on.

  The dataclass \<open>ADXConfig\<close>. The two connection fields are strings; the three
  credential fields are \<open>Optional[str]\<close>, so \<open>None\<close> is a possible value (the tests
  assign it).
\<close>

record ADXConfig =
  cluster_url :: string
  database :: string
  tenant_id :: "string option"
  client_id :: "string option"
  client_secret :: "string option"

text \<open>
  Python truthiness of the values the guards test: a string is falsy exactly when it
  is empty, and \<open>None\<close> is falsy.
\<close>

fun truthy :: "string option \<Rightarrow> bool" where
  "truthy None = False"
| "truthy (Some s) = (s \<noteq> [])"

text \<open>
  The exceptions that can leave the module: the two \<open>ValueError\<close>s it raises itself,
  the \<open>IndexError\<close> of an out-of-range \<open>columns[i]\<close>, and whatever the client
  library raises from \<open>execute\<close>.
\<close>

datatype error = ValueError string | IndexError | KustoError string

text \<open>
  The objects of the client library that \<open>get_kusto_client\<close> builds. The library is
  not part of the repository; its constructors are taken as plain object construction
  on the arguments the source passes (the configuration fields as they are).
\<close>

datatype ClientSecretCredential =
  ClientSecretCredential "string option" "string option" "string option"

datatype KustoConnectionStringBuilder =
  with_aad_application_key_authentication string "string option" "string option" "string option"

datatype KustoClient = KustoClient KustoConnectionStringBuilder

text \<open>
  The result set as the module reads it: \<open>result_set.primary_results\<close> (a list of
  tables, or \<open>None\<close>), and of the first table \<open>columns\<close> (objects with a
  \<open>column_name\<close>) and \<open>rows\<close> (each row a sequence of values). The values are
  whatever the database returns, so their type is a parameter. A null result set is
  \<open>None\<close> of the option type. A result set object is truthy; the library's own
  result set has a length, the number of its tables, and is falsy only when it has no
  table at all, where \<open>primary_results\<close> is empty and the normalizer returns the
  empty list by its second test.
\<close>

record KustoResultColumn =
  column_name :: string

record 'v KustoResultTable =
  columns :: "KustoResultColumn list"
  rows :: "'v list list"

record 'v KustoResponseDataSet =
  primary_results :: "'v KustoResultTable list option"

text \<open>
  A Python \<open>dict\<close> with string keys: the key/value pairs in insertion order, every
  key at most once. \<open>dict_set d k v\<close> is the assignment \<open>d[k] = v\<close>: an existing key
  keeps its place and gets the new value, a new key goes to the end.
\<close>

type_synonym 'v pydict = "(string \<times> 'v) list"

fun dict_set :: "'v pydict \<Rightarrow> string \<Rightarrow> 'v \<Rightarrow> 'v pydict" where
  "dict_set [] k v = [(k, v)]"
| "dict_set ((k', v') # d) k v =
     (if k' = k then (k, v) # d else (k', v') # dict_set d k v)"

definition dict_keys :: "'v pydict \<Rightarrow> string list" where
  "dict_keys d = map fst d"

text \<open>
  The calls the claims speak about, recorded in the order they happen: entering
  \<open>get_kusto_client\<close>, the construction of a client handle, and
  \<open>client.execute(database, query)\<close>.
\<close>

datatype event =
  GetKustoClient
| ClientConstructed KustoClient
| Execute KustoClient string string

text \<open>
  The module's state: the global \<open>config\<close> object and the calls made so far.
\<close>

record server_state =
  config :: ADXConfig
  trace :: "event list"

text \<open>
  \<open>client.execute\<close> belongs to the client library: it is a parameter of the
  operations. It returns a result set (possibly null) or raises.
\<close>

type_synonym 'v kusto_execute =
  "KustoClient \<Rightarrow> string \<Rightarrow> string \<Rightarrow> error + 'v KustoResponseDataSet option"

section \<open>The functions of \<open>server.py\<close>\<close>

definition credentials_missing_message :: string where
  "credentials_missing_message =
     ''Client credentials are missing. Please set AZURE_TENANT_ID, AZURE_CLIENT_ID, and AZURE_CLIENT_SECRET environment variables.''"

definition configuration_missing_message :: string where
  "configuration_missing_message =
     ''Azure Data Explorer configuration is missing. Please set ADX_CLUSTER_URL and ADX_DATABASE environment variables.''"

definition get_kusto_client :: "server_state \<Rightarrow> (error + KustoClient) \<times> server_state" where
  "get_kusto_client s =
     (let s1 = s\<lparr>trace := trace s @ [GetKustoClient]\<rparr> in
      if \<not> (truthy (tenant_id (config s1)) \<and> truthy (client_id (config s1))
             \<and> truthy (client_secret (config s1)))
      then (Inl (ValueError credentials_missing_message), s1)
      else
        let credential = ClientSecretCredential (tenant_id (config s1))
                           (client_id (config s1)) (client_secret (config s1));
            kcsb = with_aad_application_key_authentication (cluster_url (config s1))
                     (client_id (config s1)) (client_secret (config s1))
                     (tenant_id (config s1));
            client = KustoClient kcsb
        in (Inr client, s1\<lparr>trace := trace s1 @ [ClientConstructed client]\<rparr>))"

text \<open>
  The inner loop of \<open>format_query_results\<close>,
  \<open>for i, value in enumerate(row): record[columns[i]] = value\<close>, from index \<open>i\<close> on.
  \<open>columns[i]\<close> raises \<open>IndexError\<close> when \<open>i\<close> is not below the number of columns.
\<close>

fun fill_record :: "string list \<Rightarrow> nat \<Rightarrow> 'v list \<Rightarrow> 'v pydict \<Rightarrow> error + 'v pydict" where
  "fill_record column_names i [] record = Inr record"
| "fill_record column_names i (val # row) record =
     (if i < length column_names
      then fill_record column_names (Suc i) row (dict_set record (column_names ! i) val)
      else Inl IndexError)"

text \<open>
  The outer loop, \<open>for row in primary_result.rows\<close>, with \<open>formatted_results\<close> as
  the accumulator.
\<close>

fun format_rows ::
  "string list \<Rightarrow> 'v list list \<Rightarrow> 'v pydict list \<Rightarrow> error + 'v pydict list" where
  "format_rows column_names [] formatted_results = Inr formatted_results"
| "format_rows column_names (row # rest) formatted_results =
     (case fill_record column_names 0 row [] of
        Inl e \<Rightarrow> Inl e
      | Inr record \<Rightarrow> format_rows column_names rest (formatted_results @ [record]))"

definition format_query_results ::
  "'v KustoResponseDataSet option \<Rightarrow> error + 'v pydict list" where
  "format_query_results result_set =
     (case result_set of
        None \<Rightarrow> Inr []
      | Some rs \<Rightarrow>
          (case primary_results rs of
             None \<Rightarrow> Inr []
           | Some [] \<Rightarrow> Inr []
           | Some (primary_result # _) \<Rightarrow>
               format_rows (map column_name (columns primary_result))
                 (rows primary_result) []))"

text \<open>
  \<open>client.execute(config.database, query)\<close>: the call is recorded and its outcome is
  the library's.
\<close>

definition client_execute ::
  "'v kusto_execute \<Rightarrow> KustoClient \<Rightarrow> string \<Rightarrow> server_state
     \<Rightarrow> (error + 'v KustoResponseDataSet option) \<times> server_state" where
  "client_execute exec client query s =
     (exec client (database (config s)) query,
      s\<lparr>trace := trace s @ [Execute client (database (config s)) query]\<rparr>)"

text \<open>
  The shared tail of the four operations:
  \<open>result_set = client.execute(config.database, query); return format_query_results(result_set)\<close>.
\<close>

definition execute_and_format ::
  "'v kusto_execute \<Rightarrow> KustoClient \<Rightarrow> string \<Rightarrow> server_state
     \<Rightarrow> (error + 'v pydict list) \<times> server_state" where
  "execute_and_format exec client query s =
     (case client_execute exec client query s of
        (Inl e, s') \<Rightarrow> (Inl e, s')
      | (Inr result_set, s') \<Rightarrow> (format_query_results result_set, s'))"

definition execute_query ::
  "'v kusto_execute \<Rightarrow> string \<Rightarrow> server_state \<Rightarrow> (error + 'v pydict list) \<times> server_state" where
  "execute_query exec query s =
     (if cluster_url (config s) = [] \<or> database (config s) = []
      then (Inl (ValueError configuration_missing_message), s)
      else
        (case get_kusto_client s of
           (Inl e, s1) \<Rightarrow> (Inl e, s1)
         | (Inr client, s1) \<Rightarrow> execute_and_format exec client query s1))"

definition list_tables ::
  "'v kusto_execute \<Rightarrow> server_state \<Rightarrow> (error + 'v pydict list) \<times> server_state" where
  "list_tables exec s =
     (if cluster_url (config s) = [] \<or> database (config s) = []
      then (Inl (ValueError configuration_missing_message), s)
      else
        (case get_kusto_client s of
           (Inl e, s1) \<Rightarrow> (Inl e, s1)
         | (Inr client, s1) \<Rightarrow>
             (let query = ''.show tables | project TableName, Folder, DatabaseName''
              in execute_and_format exec client query s1)))"

definition get_table_schema ::
  "'v kusto_execute \<Rightarrow> string \<Rightarrow> server_state \<Rightarrow> (error + 'v pydict list) \<times> server_state" where
  "get_table_schema exec table_name s =
     (if cluster_url (config s) = [] \<or> database (config s) = []
      then (Inl (ValueError configuration_missing_message), s)
      else
        (case get_kusto_client s of
           (Inl e, s1) \<Rightarrow> (Inl e, s1)
         | (Inr client, s1) \<Rightarrow>
             (let query = ''.show table '' @ table_name @ '' | getschema''
              in execute_and_format exec client query s1)))"

text \<open>
  \<open>str\<close> of a Python integer, as the f-string \<open>{sample_size}\<close> formats it: decimal
  digits, a leading minus sign for a negative number.
\<close>

definition digit_char :: "nat \<Rightarrow> char" where
  "digit_char d = ''0123456789'' ! (d mod 10)"

function str_nat :: "nat \<Rightarrow> string" where
  "str_nat n = (if n < 10 then [digit_char n] else str_nat (n div 10) @ [digit_char (n mod 10)])"
  by pat_completeness auto
termination
  by (relation "measure id") auto

declare str_nat.simps [simp del]

definition str_int :: "int \<Rightarrow> string" where
  "str_int i = (if i < 0 then CHR ''-'' # str_nat (nat (- i)) else str_nat (nat i))"

text \<open>
  \<open>sample_size: int = 10\<close>: an omitted argument is \<open>None\<close> here and takes the
  default.
\<close>

definition sample_table_data ::
  "'v kusto_execute \<Rightarrow> string \<Rightarrow> int option \<Rightarrow> server_state
     \<Rightarrow> (error + 'v pydict list) \<times> server_state" where
  "sample_table_data exec table_name sample_size_arg s =
     (let sample_size = (case sample_size_arg of None \<Rightarrow> 10 | Some n \<Rightarrow> n) in
      if cluster_url (config s) = [] \<or> database (config s) = []
      then (Inl (ValueError configuration_missing_message), s)
      else
        (case get_kusto_client s of
           (Inl e, s1) \<Rightarrow> (Inl e, s1)
         | (Inr client, s1) \<Rightarrow>
             (let query = table_name @ '' | sample '' @ str_int sample_size
              in execute_and_format exec client query s1)))"

section \<open>Vocabulary of the properties\<close>

text \<open>
  The column names of a table, as line 55 of the source computes them, and the primary
  table of a result set: the first table of \<open>primary_results\<close>, when the result set
  is not null and the list is neither absent nor empty (lines 51 to 54).
\<close>

abbreviation names_of :: "'v KustoResultTable \<Rightarrow> string list" where
  "names_of t \<equiv> map column_name (columns t)"

definition primary_table :: "'v KustoResponseDataSet option \<Rightarrow> 'v KustoResultTable option" where
  "primary_table result_set =
     (case result_set of
        None \<Rightarrow> None
      | Some rs \<Rightarrow>
          (case primary_results rs of
             None \<Rightarrow> None
           | Some [] \<Rightarrow> None
           | Some (primary_result # _) \<Rightarrow> Some primary_result))"

text \<open>
  The reference definition of the result normalizer, written from the specification's
  words and not from the code: no records for a null result set or one without tables;
  otherwise one record per row of the first table, in row order, the record pairing
  the column name at each position with the row's value at that position.
\<close>

definition spec_normalize :: "'v KustoResponseDataSet option \<Rightarrow> 'v pydict list" where
  "spec_normalize result_set =
     (case result_set of
        None \<Rightarrow> []
      | Some rs \<Rightarrow>
          (case primary_results rs of
             None \<Rightarrow> []
           | Some [] \<Rightarrow> []
           | Some (t # _) \<Rightarrow> map (\<lambda>row. zip (names_of t) row) (rows t)))"

text \<open>
  Two closed forms used in the proofs. \<open>record_of\<close> is the record the inner loop
  leaves when no index is out of range: the assignments \<open>record[name] = value\<close> in
  position order. \<open>key_order ks xs\<close> is the key list of a dictionary with keys \<open>ks\<close>
  after assigning to the keys \<open>xs\<close> in turn.
\<close>

definition record_of :: "string list \<Rightarrow> 'v list \<Rightarrow> 'v pydict" where
  "record_of column_names row = fold (\<lambda>(k, v) d. dict_set d k v) (zip column_names row) []"

fun key_order :: "string list \<Rightarrow> string list \<Rightarrow> string list" where
  "key_order ks [] = ks"
| "key_order ks (x # xs) = key_order (if x \<in> set ks then ks else ks @ [x]) xs"

text \<open>
  The client handle that \<open>get_kusto_client\<close> returns for a configuration (lines 42 to
  48).
\<close>

definition configured_client :: "ADXConfig \<Rightarrow> KustoClient" where
  "configured_client c =
     KustoClient (with_aad_application_key_authentication (cluster_url c)
       (client_id c) (client_secret c) (tenant_id c))"

section \<open>Test data\<close>

text \<open>
  The values of \<open>tests/test_server.py\<close>: the configuration, the mocked result set
  with columns \<open>Column1\<close>, \<open>Column2\<close> and two rows, and a client whose \<open>execute\<close>
  returns it. The scalar type holds the values a row can carry.
\<close>

datatype scalar = SNull | SBool bool | SInt int | SStr string

definition test_config :: ADXConfig where
  "test_config =
     \<lparr>cluster_url = ''https://testcluster.region.kusto.windows.net'',
      database = ''testdb'',
      tenant_id = Some ''test-tenant-id'',
      client_id = Some ''test-client-id'',
      client_secret = Some ''test-client-secret''\<rparr>"

definition test_state :: server_state where
  "test_state = \<lparr>config = test_config, trace = []\<rparr>"

definition test_result_set :: "scalar KustoResponseDataSet" where
  "test_result_set =
     \<lparr>primary_results = Some
        [\<lparr>columns = [\<lparr>column_name = ''Column1''\<rparr>, \<lparr>column_name = ''Column2''\<rparr>],
          rows = [[SStr ''Value1'', SInt 1], [SStr ''Value2'', SInt 2]]\<rparr>]\<rparr>"

definition mock_execute :: "scalar kusto_execute" where
  "mock_execute client db query = Inr (Some test_result_set)"

text \<open>
  The states of the two error tests (empty cluster URL and database; tenant identity
  \<open>None\<close>) and the records the mocked result set normalizes to.
\<close>

definition missing_config_state :: server_state where
  "missing_config_state =
     \<lparr>config = test_config\<lparr>cluster_url := [], database := []\<rparr>, trace = []\<rparr>"

definition missing_tenant_state :: server_state where
  "missing_tenant_state = \<lparr>config = test_config\<lparr>tenant_id := None\<rparr>, trace = []\<rparr>"

definition test_records :: "scalar pydict list" where
  "test_records =
     [[(''Column1'', SStr ''Value1''), (''Column2'', SInt 1)],
      [(''Column1'', SStr ''Value2''), (''Column2'', SInt 2)]]"

text \<open>
  Result sets outside the tests: a row with more values than there are columns, a
  column name that occurs twice, and rows of different lengths.
\<close>

definition overlong_row_set :: "scalar KustoResponseDataSet" where
  "overlong_row_set =
     \<lparr>primary_results = Some
        [\<lparr>columns = [\<lparr>column_name = ''A''\<rparr>], rows = [[SInt 1, SInt 2]]\<rparr>]\<rparr>"

definition repeated_column_set :: "scalar KustoResponseDataSet" where
  "repeated_column_set =
     \<lparr>primary_results = Some
        [\<lparr>columns = [\<lparr>column_name = ''A''\<rparr>, \<lparr>column_name = ''A''\<rparr>],
          rows = [[SInt 1, SInt 2]]\<rparr>]\<rparr>"

definition ragged_set :: "scalar KustoResponseDataSet" where
  "ragged_set =
     \<lparr>primary_results = Some
        [\<lparr>columns = [\<lparr>column_name = ''A''\<rparr>, \<lparr>column_name = ''B''\<rparr>],
          rows = [[SInt 1, SInt 2], [SInt 3]]\<rparr>]\<rparr>"

section \<open>The result normalizer\<close>

subsection \<open>Dictionary assignment and key order\<close>

lemma keys_dict_set:
  "map fst (dict_set d k v) = (if k \<in> set (map fst d) then map fst d else map fst d @ [k])"
  by (induction d) force+

lemma dict_set_fresh: "k \<notin> set (map fst d) \<Longrightarrow> dict_set d k v = d @ [(k, v)]"
  by (induction d) auto

lemma keys_fold_dict_set:
  "map fst (fold (\<lambda>(k, v) d. dict_set d k v) kvs d) = key_order (map fst d) (map fst kvs)"
proof (induction kvs arbitrary: d)
  case Nil
  then show ?case by simp
next
  case (Cons kv kvs)
  obtain k v where kv: "kv = (k, v)" by (cases kv)
  show ?case
    unfolding kv using Cons [of "dict_set d k v"] by (simp add: keys_dict_set)
qed

lemma fold_dict_set_distinct:
  "distinct (map fst d @ map fst kvs) \<Longrightarrow>
   fold (\<lambda>(k, v) d. dict_set d k v) kvs d = d @ kvs"
  by (induction kvs arbitrary: d) (auto simp: dict_set_fresh)

lemma key_order_decomp:
  "\<exists>zs. key_order ks xs = ks @ zs \<and> subseq zs xs \<and> set zs = set xs - set ks \<and> distinct zs"
proof (induction xs arbitrary: ks)
  case Nil
  then show ?case by simp
next
  case (Cons x xs)
  show ?case
  proof (cases "x \<in> set ks")
    case True
    from Cons [of ks] obtain zs where
      "key_order ks xs = ks @ zs" "subseq zs xs" "set zs = set xs - set ks" "distinct zs"
      by blast
    with True show ?thesis by (intro exI [of _ zs]) auto
  next
    case False
    from Cons [of "ks @ [x]"] obtain zs where
      "key_order (ks @ [x]) xs = (ks @ [x]) @ zs" "subseq zs xs"
      "set zs = set xs - set (ks @ [x])" "distinct zs"
      by blast
    with False show ?thesis by (intro exI [of _ "x # zs"]) auto
  qed
qed

lemma key_order_from_empty:
  "set (key_order [] xs) = set xs" "subseq (key_order [] xs) xs" "distinct (key_order [] xs)"
  using key_order_decomp [of "[]" xs] by auto

lemma key_order_distinct: "distinct (ks @ xs) \<Longrightarrow> key_order ks xs = ks @ xs"
  by (induction xs arbitrary: ks) auto

subsection \<open>The two loops\<close>

text \<open>
  A row that fits the column list leaves the record of its assignments; a row with
  more values than there are columns ends the whole call with \<open>IndexError\<close>.
\<close>

lemma fill_record_fold:
  "i + length row \<le> length cs \<Longrightarrow>
   fill_record cs i row d = Inr (fold (\<lambda>(k, v) d. dict_set d k v) (zip (drop i cs) row) d)"
proof (induction row arbitrary: i d)
  case Nil
  then show ?case by simp
next
  case (Cons v row)
  then have i: "i < length cs" by simp
  then have "drop i cs = cs ! i # drop (Suc i) cs"
    by (simp add: Cons_nth_drop_Suc)
  with Cons i show ?case by simp
qed

lemma fill_record_record_of:
  "length row \<le> length cs \<Longrightarrow> fill_record cs 0 row [] = Inr (record_of cs row)"
  using fill_record_fold [of 0 row cs "[]"] by (simp add: record_of_def)

lemma fill_record_too_long:
  "i \<le> length cs \<Longrightarrow> length cs < i + length row \<Longrightarrow>
   fill_record cs i row d = Inl IndexError"
  by (induction row arbitrary: i d) auto

lemma format_rows_overlong:
  "\<exists>row\<in>set rs. length cs < length row \<Longrightarrow> format_rows cs rs acc = Inl IndexError"
proof (induction rs arbitrary: acc)
  case Nil
  then show ?case by simp
next
  case (Cons row rs)
  show ?case
  proof (cases "length cs < length row")
    case True
    then show ?thesis by (simp add: fill_record_too_long)
  next
    case False
    with Cons.prems have "\<exists>row\<in>set rs. length cs < length row" by auto
    with Cons.IH False show ?thesis by (simp add: fill_record_record_of)
  qed
qed

lemma format_rows_map:
  "\<forall>row\<in>set rs. length row \<le> length cs \<Longrightarrow>
   format_rows cs rs acc = Inr (acc @ map (record_of cs) rs)"
  by (induction rs arbitrary: acc) (auto simp: fill_record_record_of)

lemma keys_record_of:
  "dict_keys (record_of cs row) = key_order [] (take (length row) cs)"
  by (simp add: dict_keys_def record_of_def keys_fold_dict_set map_fst_zip_take min_def)

lemma record_of_distinct: "distinct cs \<Longrightarrow> record_of cs row = zip cs row"
  unfolding record_of_def
  by (subst fold_dict_set_distinct) (auto simp: map_fst_zip_take)

lemma format_query_results_primary:
  "format_query_results rs =
     (case primary_table rs of
        None \<Rightarrow> Inr []
      | Some t \<Rightarrow> format_rows (names_of t) (rows t) [])"
  by (simp add: format_query_results_def primary_table_def split: option.splits list.splits)

lemma format_query_results_fit:
  assumes "primary_table rs = Some t"
    and "\<forall>row\<in>set (rows t). length row \<le> length (columns t)"
  shows "format_query_results rs = Inr (map (record_of (names_of t)) (rows t))"
  using assms format_rows_map [of "rows t" "names_of t" "[]"]
  by (simp add: format_query_results_primary)

lemma take_proper_subset:
  assumes d: "distinct xs" and n: "n < length xs"
  shows "set (take n xs) \<subset> set xs"
proof -
  have disj: "set (take n xs) \<inter> set (drop n xs) = {}"
    using d by (rule set_take_disj_set_drop_if_distinct) simp
  from n have "xs ! n \<in> set (drop n xs)"
    by (metis Cons_nth_drop_Suc list.set_intros(1))
  with disj have "xs ! n \<notin> set (take n xs)" by blast
  moreover from n have "xs ! n \<in> set xs" by simp
  moreover have "set (take n xs) \<subseteq> set xs" by (rule set_take_subset)
  ultimately show ?thesis by blast
qed

lemma primary_table_ragged:
  "primary_table (Some ragged_set) =
     Some \<lparr>columns = [\<lparr>column_name = ''A''\<rparr>, \<lparr>column_name = ''B''\<rparr>],
          rows = [[SInt 1, SInt 2], [SInt 3]]\<rparr>"
  by (simp add: primary_table_def ragged_set_def)

lemma primary_table_test:
  "primary_table (Some test_result_set) =
     Some \<lparr>columns = [\<lparr>column_name = ''Column1''\<rparr>, \<lparr>column_name = ''Column2''\<rparr>],
          rows = [[SStr ''Value1'', SInt 1], [SStr ''Value2'', SInt 2]]\<rparr>"
  by (simp add: primary_table_def test_result_set_def)

subsection \<open>The normalizer and its reference definition\<close>

text \<open>
  Claim C3, as the code has it. For every result set whose primary table has pairwise
  distinct column names and rows with at most as many values as there are columns,
  the normalizer returns exactly what the reference definition gives: no records for
  a null result set or one whose table list is absent or empty, and otherwise one
  record per row of the first table, in row order, pairing the column name at each
  position with the row's value at that position. A result set without a primary
  table satisfies the hypothesis trivially.
\<close>

theorem format_query_results_matches_reference:
  assumes "\<forall>t. primary_table rs = Some t \<longrightarrow>
             distinct (names_of t) \<and> (\<forall>row\<in>set (rows t). length row \<le> length (columns t))"
  shows "format_query_results rs = Inr (spec_normalize rs)"
proof (cases "primary_table rs")
  case None
  then show ?thesis
    by (auto simp: format_query_results_primary spec_normalize_def primary_table_def
        split: option.splits list.splits)
next
  case (Some t)
  with assms have d: "distinct (names_of t)"
    and fit: "\<forall>row\<in>set (rows t). length row \<le> length (columns t)" by simp_all
  have "spec_normalize rs = map (\<lambda>row. zip (names_of t) row) (rows t)"
    using Some by (auto simp: spec_normalize_def primary_table_def split: option.splits list.splits)
  also have "\<dots> = map (record_of (names_of t)) (rows t)"
    using d by (simp add: record_of_distinct)
  finally show ?thesis
    using format_query_results_fit [OF Some fit] by simp
qed

text \<open>
  The theorem at the result set of the tests (columns \<open>Column1\<close>, \<open>Column2\<close>, rows
  \<open>["Value1", 1]\<close> and \<open>["Value2", 2]\<close>), which gives the records of the
  specification's example, and at the null result set and the result sets whose
  table list is empty or absent, which give the empty sequence.
\<close>

theorem format_query_results_matches_reference_witness:
  "format_query_results (Some test_result_set) =
     Inr [[(''Column1'', SStr ''Value1''), (''Column2'', SInt 1)],
          [(''Column1'', SStr ''Value2''), (''Column2'', SInt 2)]]
   \<and> format_query_results (None :: scalar KustoResponseDataSet option) = Inr []
   \<and> format_query_results (Some \<lparr>primary_results = Some ([] :: scalar KustoResultTable list)\<rparr>) = Inr []
   \<and> format_query_results (Some \<lparr>primary_results = (None :: scalar KustoResultTable list option)\<rparr>) = Inr []"
proof -
  have hyp: "\<forall>t. primary_table (Some test_result_set) = Some t \<longrightarrow>
             distinct (names_of t) \<and> (\<forall>row\<in>set (rows t). length row \<le> length (columns t))"
    by (simp add: primary_table_test)
  have a: "format_query_results (Some test_result_set) =
     Inr [[(''Column1'', SStr ''Value1''), (''Column2'', SInt 1)],
          [(''Column1'', SStr ''Value2''), (''Column2'', SInt 2)]]"
    using format_query_results_matches_reference [OF hyp]
    by (simp add: spec_normalize_def test_result_set_def)
  have b: "format_query_results (None :: scalar KustoResponseDataSet option) = Inr []"
    using format_query_results_matches_reference [of "None :: scalar KustoResponseDataSet option"]
    by (simp add: spec_normalize_def primary_table_def)
  have c: "format_query_results (Some \<lparr>primary_results = Some ([] :: scalar KustoResultTable list)\<rparr>) = Inr []"
    using format_query_results_matches_reference
      [of "Some \<lparr>primary_results = Some ([] :: scalar KustoResultTable list)\<rparr>"]
    by (simp add: spec_normalize_def primary_table_def)
  have d: "format_query_results (Some \<lparr>primary_results = (None :: scalar KustoResultTable list option)\<rparr>) = Inr []"
    using format_query_results_matches_reference
      [of "Some \<lparr>primary_results = (None :: scalar KustoResultTable list option)\<rparr>"]
    by (simp add: spec_normalize_def primary_table_def)
  from a b c d show ?thesis by simp
qed

text \<open>
  Claim C3 as stated, for every result set, fails. With one column \<open>A\<close> and the row
  \<open>[1, 2]\<close> the second value has no column: \<open>columns[1]\<close> raises \<open>IndexError\<close>
  and the normalizer returns no sequence at all. With the columns \<open>A\<close>, \<open>A\<close> and
  the same row the second assignment overwrites the first: the only record maps
  \<open>A\<close> to 2, while position 0 pairs \<open>A\<close> with 1.
\<close>

theorem format_query_results_differs_from_reference:
  "format_query_results (Some overlong_row_set) = Inl IndexError
   \<and> format_query_results (Some overlong_row_set) \<noteq> Inr (spec_normalize (Some overlong_row_set))
   \<and> format_query_results (Some repeated_column_set) = Inr [[(''A'', SInt 2)]]
   \<and> format_query_results (Some repeated_column_set)
       \<noteq> Inr (spec_normalize (Some repeated_column_set))"
  by (simp add: format_query_results_def spec_normalize_def overlong_row_set_def
      repeated_column_set_def)

subsection \<open>The keys of the records\<close>

text \<open>
  Claim C4, as the code has it. For every result set whose primary table's rows each
  have exactly as many values as there are columns, the normalizer returns records
  that all carry the same key list; the keys of each record are exactly the column
  names of the primary table, they follow the order of the column list, and they are
  the column list itself when its names are pairwise distinct.
\<close>

theorem records_share_keys_when_rows_are_full:
  assumes "\<forall>t. primary_table rs = Some t \<longrightarrow>
             (\<forall>row\<in>set (rows t). length row = length (columns t))"
  shows "\<exists>recs. format_query_results rs = Inr recs
     \<and> (\<forall>r1\<in>set recs. \<forall>r2\<in>set recs. dict_keys r1 = dict_keys r2)
     \<and> (\<forall>t. primary_table rs = Some t \<longrightarrow>
          (\<forall>r\<in>set recs.
             set (dict_keys r) = set (names_of t)
             \<and> subseq (dict_keys r) (names_of t)
             \<and> (distinct (names_of t) \<longrightarrow> dict_keys r = names_of t)))"
proof (cases "primary_table rs")
  case None
  then show ?thesis by (simp add: format_query_results_primary)
next
  case (Some t)
  with assms have full: "\<forall>row\<in>set (rows t). length row = length (columns t)" by simp
  then have fit: "\<forall>row\<in>set (rows t). length row \<le> length (columns t)" by simp
  let ?recs = "map (record_of (names_of t)) (rows t)"
  have res: "format_query_results rs = Inr ?recs"
    using Some fit by (rule format_query_results_fit)
  have k: "dict_keys r = key_order [] (names_of t)" if "r \<in> set ?recs" for r
  proof -
    from that obtain row where "row \<in> set (rows t)" "r = record_of (names_of t) row" by auto
    with full show ?thesis by (simp add: keys_record_of)
  qed
  have same: "\<forall>r1\<in>set ?recs. \<forall>r2\<in>set ?recs. dict_keys r1 = dict_keys r2"
    using k by simp
  have keys: "\<forall>r\<in>set ?recs.
             set (dict_keys r) = set (names_of t)
             \<and> subseq (dict_keys r) (names_of t)
             \<and> (distinct (names_of t) \<longrightarrow> dict_keys r = names_of t)"
  proof
    fix r assume "r \<in> set ?recs"
    then have kr: "dict_keys r = key_order [] (names_of t)" by (rule k)
    show "set (dict_keys r) = set (names_of t)
             \<and> subseq (dict_keys r) (names_of t)
             \<and> (distinct (names_of t) \<longrightarrow> dict_keys r = names_of t)"
      unfolding kr using key_order_distinct [of "[]" "names_of t"]
      by (simp only: key_order_from_empty simp_thms) simp
  qed
  show ?thesis
  proof (rule exI [of _ ?recs], intro conjI)
    show "format_query_results rs = Inr ?recs" by (rule res)
  next
    show "\<forall>r1\<in>set ?recs. \<forall>r2\<in>set ?recs. dict_keys r1 = dict_keys r2" by (rule same)
  next
    show "\<forall>t. primary_table rs = Some t \<longrightarrow>
          (\<forall>r\<in>set ?recs.
             set (dict_keys r) = set (names_of t)
             \<and> subseq (dict_keys r) (names_of t)
             \<and> (distinct (names_of t) \<longrightarrow> dict_keys r = names_of t))"
    proof (intro allI impI)
      fix t' assume "primary_table rs = Some t'"
      with Some have eq: "t' = t" by simp
      show "\<forall>r\<in>set ?recs.
             set (dict_keys r) = set (names_of t')
             \<and> subseq (dict_keys r) (names_of t')
             \<and> (distinct (names_of t') \<longrightarrow> dict_keys r = names_of t')"
        unfolding eq by (rule keys)
    qed
  qed
qed

text \<open>
  The theorem at the result set of the tests: both records have the keys
  \<open>Column1\<close>, \<open>Column2\<close>, in this order.
\<close>

theorem records_share_keys_when_rows_are_full_witness:
  "\<exists>recs. format_query_results (Some test_result_set) = Inr recs
     \<and> list_all (\<lambda>r. dict_keys r = [''Column1'', ''Column2'']) recs"
proof -
  let ?t = "\<lparr>columns = [\<lparr>column_name = ''Column1''\<rparr>, \<lparr>column_name = ''Column2''\<rparr>],
          rows = [[SStr ''Value1'', SInt 1], [SStr ''Value2'', SInt 2]]\<rparr>"
  have hyp: "\<forall>t. primary_table (Some test_result_set) = Some t \<longrightarrow>
             (\<forall>row\<in>set (rows t). length row = length (columns t))"
    by (simp add: primary_table_test)
  from records_share_keys_when_rows_are_full [OF hyp] show ?thesis
    apply (elim exE conjE)
    subgoal for recs
      apply (drule spec [of _ ?t])
      apply (rule exI [of _ recs])
      apply (simp add: primary_table_test list_all_iff)
      done
    done
qed

text \<open>
  Claim C4 as stated, for every result set, fails. With the columns \<open>A\<close>, \<open>B\<close>
  and the rows \<open>[1, 2]\<close> and \<open>[3]\<close> the first record has the keys \<open>A\<close> and
  \<open>B\<close>, the second only \<open>A\<close>.
\<close>

theorem records_with_different_keys:
  "format_query_results (Some ragged_set)
     = Inr [[(''A'', SInt 1), (''B'', SInt 2)], [(''A'', SInt 3)]]
   \<and> set (dict_keys [(''A'', SInt 1), (''B'', SInt 2)]) \<noteq> set (dict_keys [(''A'', SInt 3)])"
  by (simp add: format_query_results_def ragged_set_def dict_keys_def)

text \<open>
  Claim C10. When every row of the primary table has at most as many values as there
  are columns, the normalizer returns a sequence of records (no index is out of range,
  no error is raised), one record per row. The keys of the record of a row are the
  first \<open>len(row)\<close> column names: the same set, in the order of the column list,
  each once. When the column names are pairwise distinct the key list is exactly that
  prefix of the column list, and for a row strictly shorter than the column list the
  keys are a proper subset of the column names. A result set without a primary table
  gives the empty sequence.
\<close>

theorem format_query_results_total_when_rows_fit:
  assumes "\<forall>t. primary_table rs = Some t \<longrightarrow>
             (\<forall>row\<in>set (rows t). length row \<le> length (columns t))"
  shows "\<exists>recs. format_query_results rs = Inr recs
     \<and> (\<forall>t. primary_table rs = Some t \<longrightarrow>
          length recs = length (rows t)
          \<and> (\<forall>i<length (rows t).
               set (dict_keys (recs ! i)) = set (take (length (rows t ! i)) (names_of t))
               \<and> subseq (dict_keys (recs ! i)) (take (length (rows t ! i)) (names_of t))
               \<and> distinct (dict_keys (recs ! i))
               \<and> (distinct (names_of t) \<longrightarrow>
                    dict_keys (recs ! i) = take (length (rows t ! i)) (names_of t)
                    \<and> (length (rows t ! i) < length (columns t) \<longrightarrow>
                         set (dict_keys (recs ! i)) \<subset> set (names_of t)))))"
proof (cases "primary_table rs")
  case None
  then show ?thesis by (simp add: format_query_results_primary)
next
  case (Some t)
  with assms have fit: "\<forall>row\<in>set (rows t). length row \<le> length (columns t)" by simp
  let ?recs = "map (record_of (names_of t)) (rows t)"
  have res: "format_query_results rs = Inr ?recs"
    using Some fit by (rule format_query_results_fit)
  have keys: "\<forall>i<length (rows t).
      set (dict_keys (?recs ! i)) = set (take (length (rows t ! i)) (names_of t))
      \<and> subseq (dict_keys (?recs ! i)) (take (length (rows t ! i)) (names_of t))
      \<and> distinct (dict_keys (?recs ! i))
      \<and> (distinct (names_of t) \<longrightarrow>
           dict_keys (?recs ! i) = take (length (rows t ! i)) (names_of t)
           \<and> (length (rows t ! i) < length (columns t) \<longrightarrow>
                set (dict_keys (?recs ! i)) \<subset> set (names_of t)))"
  proof (intro allI impI)
    fix i assume i: "i < length (rows t)"
    let ?n = "length (rows t ! i)"
    have k: "dict_keys (?recs ! i) = key_order [] (take ?n (names_of t))"
      using i by (simp add: keys_record_of)
    have full: "dict_keys (?recs ! i) = take ?n (names_of t)" if "distinct (names_of t)"
      using that k key_order_distinct [of "[]" "take ?n (names_of t)"] by simp
    have proper: "set (dict_keys (?recs ! i)) \<subset> set (names_of t)"
      if "distinct (names_of t)" "?n < length (columns t)"
      using that full take_proper_subset [of "names_of t" ?n] by simp
    show "set (dict_keys (?recs ! i)) = set (take ?n (names_of t))
      \<and> subseq (dict_keys (?recs ! i)) (take ?n (names_of t))
      \<and> distinct (dict_keys (?recs ! i))
      \<and> (distinct (names_of t) \<longrightarrow>
           dict_keys (?recs ! i) = take ?n (names_of t)
           \<and> (?n < length (columns t) \<longrightarrow>
                set (dict_keys (?recs ! i)) \<subset> set (names_of t)))"
      using full proper unfolding k by (simp only: key_order_from_empty simp_thms) blast
  qed
  show ?thesis
  proof (rule exI [of _ ?recs], rule conjI)
    show "format_query_results rs = Inr ?recs" by (rule res)
  next
    show "\<forall>t. primary_table rs = Some t \<longrightarrow>
          length ?recs = length (rows t)
          \<and> (\<forall>i<length (rows t).
               set (dict_keys (?recs ! i)) = set (take (length (rows t ! i)) (names_of t))
               \<and> subseq (dict_keys (?recs ! i)) (take (length (rows t ! i)) (names_of t))
               \<and> distinct (dict_keys (?recs ! i))
               \<and> (distinct (names_of t) \<longrightarrow>
                    dict_keys (?recs ! i) = take (length (rows t ! i)) (names_of t)
                    \<and> (length (rows t ! i) < length (columns t) \<longrightarrow>
                         set (dict_keys (?recs ! i)) \<subset> set (names_of t))))"
    proof (intro allI impI)
      fix t' assume "primary_table rs = Some t'"
      with Some have eq: "t' = t" by simp
      show "length ?recs = length (rows t')
          \<and> (\<forall>i<length (rows t').
               set (dict_keys (?recs ! i)) = set (take (length (rows t' ! i)) (names_of t'))
               \<and> subseq (dict_keys (?recs ! i)) (take (length (rows t' ! i)) (names_of t'))
               \<and> distinct (dict_keys (?recs ! i))
               \<and> (distinct (names_of t') \<longrightarrow>
                    dict_keys (?recs ! i) = take (length (rows t' ! i)) (names_of t')
                    \<and> (length (rows t' ! i) < length (columns t') \<longrightarrow>
                         set (dict_keys (?recs ! i)) \<subset> set (names_of t'))))"
        unfolding eq by (rule conjI [OF _ keys]) simp
    qed
  qed
qed

text \<open>
  The theorem at a table with the columns \<open>A\<close>, \<open>B\<close> and the rows \<open>[1, 2]\<close>
  and \<open>[3]\<close>: two records, the second with the key \<open>A\<close> only.
\<close>

theorem format_query_results_total_when_rows_fit_witness:
  "\<exists>recs. format_query_results (Some ragged_set) = Inr recs
     \<and> length recs = 2 \<and> dict_keys (recs ! 0) = [''A'', ''B''] \<and> dict_keys (recs ! 1) = [''A'']"
proof -
  let ?t = "\<lparr>columns = [\<lparr>column_name = ''A''\<rparr>, \<lparr>column_name = ''B''\<rparr>],
            rows = [[SInt 1, SInt 2], [SInt 3]]\<rparr>"
  have hyp: "\<forall>t. primary_table (Some ragged_set) = Some t \<longrightarrow>
             (\<forall>row\<in>set (rows t). length row \<le> length (columns t))"
    by (simp add: primary_table_ragged)
  from format_query_results_total_when_rows_fit [OF hyp] show ?thesis
    apply (elim exE conjE)
    subgoal for recs
      apply (drule spec [of _ ?t])
      apply (rule exI [of _ recs])
      apply (simp add: primary_table_ragged All_less_Suc)
      done
    done
qed

section \<open>The four operations\<close>

subsection \<open>Messages, the client factory and the shared tail\<close>

lemma configuration_missing_contains:
  "sublist ''configuration is missing'' configuration_missing_message"
proof -
  have e: "configuration_missing_message =
      ''Azure Data Explorer '' @ ''configuration is missing''
        @ ''. Please set ADX_CLUSTER_URL and ADX_DATABASE environment variables.''"
    by (simp add: configuration_missing_message_def)
  show ?thesis by (subst e) (rule sublist_appendI)
qed

lemma credentials_missing_contains:
  "sublist ''credentials are missing'' credentials_missing_message"
proof -
  have e: "credentials_missing_message =
      ''Client '' @ ''credentials are missing''
        @ ''. Please set AZURE_TENANT_ID, AZURE_CLIENT_ID, and AZURE_CLIENT_SECRET environment variables.''"
    by (simp add: credentials_missing_message_def)
  show ?thesis by (subst e) (rule sublist_appendI)
qed

lemma get_kusto_client_missing:
  "\<not> (truthy (tenant_id (config s)) \<and> truthy (client_id (config s))
       \<and> truthy (client_secret (config s))) \<Longrightarrow>
   get_kusto_client s =
     (Inl (ValueError credentials_missing_message), s\<lparr>trace := trace s @ [GetKustoClient]\<rparr>)"
  by (auto simp: get_kusto_client_def Let_def)

lemma get_kusto_client_present:
  "truthy (tenant_id (config s)) \<Longrightarrow> truthy (client_id (config s)) \<Longrightarrow>
   truthy (client_secret (config s)) \<Longrightarrow>
   get_kusto_client s =
     (Inr (configured_client (config s)),
      s\<lparr>trace := trace s @ [GetKustoClient, ClientConstructed (configured_client (config s))]\<rparr>)"
  by (simp add: get_kusto_client_def Let_def configured_client_def)

lemma execute_and_format_eq:
  "execute_and_format exec client query s =
     ((case exec client (database (config s)) query of
         Inl e \<Rightarrow> Inl e
       | Inr result_set \<Rightarrow> format_query_results result_set),
      s\<lparr>trace := trace s @ [Execute client (database (config s)) query]\<rparr>)"
  by (simp add: execute_and_format_def client_execute_def split: sum.splits)

lemma format_test_result_set:
  "format_query_results (Some test_result_set) = Inr test_records"
  by (simp add: format_query_results_def test_result_set_def test_records_def)

lemma test_state_simps:
  "config test_state = test_config" "trace test_state = []"
  "cluster_url test_config = ''https://testcluster.region.kusto.windows.net''"
  "database test_config = ''testdb''"
  "tenant_id test_config = Some ''test-tenant-id''"
  "client_id test_config = Some ''test-client-id''"
  "client_secret test_config = Some ''test-client-secret''"
  by (simp_all add: test_state_def test_config_def)

lemma operation_with_client:
  assumes "truthy (tenant_id (config s))" "truthy (client_id (config s))"
    "truthy (client_secret (config s))"
  shows "(case get_kusto_client s of
            (Inl e, s1) \<Rightarrow> (Inl e, s1)
          | (Inr client, s1) \<Rightarrow> execute_and_format exec client query s1) =
     ((case exec (configured_client (config s)) (database (config s)) query of
         Inl e \<Rightarrow> Inl e
       | Inr result_set \<Rightarrow> format_query_results result_set),
      s\<lparr>trace := trace s @ [GetKustoClient, ClientConstructed (configured_client (config s)),
                              Execute (configured_client (config s)) (database (config s)) query]\<rparr>)"
  by (simp add: get_kusto_client_present [OF assms] execute_and_format_eq)

lemma operation_success_ready:
  assumes "fst (if cluster_url (config s) = [] \<or> database (config s) = []
               then (Inl (ValueError configuration_missing_message), s)
               else (case get_kusto_client s of
                       (Inl e, s1) \<Rightarrow> (Inl e, s1)
                     | (Inr client, s1) \<Rightarrow> k client s1)) = Inr recs"
  shows "cluster_url (config s) \<noteq> [] \<and> database (config s) \<noteq> []
     \<and> truthy (tenant_id (config s)) \<and> truthy (client_id (config s))
     \<and> truthy (client_secret (config s))"
proof (rule ccontr)
  assume n: "\<not> ?thesis"
  show False
  proof (cases "cluster_url (config s) = [] \<or> database (config s) = []")
    case True
    with assms show False by simp
  next
    case False
    with n have "\<not> (truthy (tenant_id (config s)) \<and> truthy (client_id (config s))
       \<and> truthy (client_secret (config s)))" by blast
    from get_kusto_client_missing [OF this] False assms show False by simp
  qed
qed

lemma str_int_examples:
  "str_int 10 = ''10''" "str_int 5 = ''5''" "str_int 0 = ''0''" "str_int (- 15) = ''-15''"
  "str_int 1234 = ''1234''"
  by (simp_all add: str_int_def str_nat.simps digit_char_def)

subsection \<open>The two configuration errors\<close>

text \<open>
  Claim C1. When the cluster URL or the database name of the configuration is the
  empty string, each of \<open>execute_query\<close>, \<open>list_tables\<close>, \<open>get_table_schema\<close>
  and \<open>sample_table_data\<close> raises a \<open>ValueError\<close> whose message contains
  \<open>configuration is missing\<close>. The state it leaves is the state it started in: the
  trace has no new call, so \<open>get_kusto_client\<close> was not entered and no client handle
  was constructed.
\<close>

theorem missing_configuration_is_rejected:
  assumes "cluster_url (config s) = [] \<or> database (config s) = []"
  shows "\<exists>m. sublist ''configuration is missing'' m
     \<and> execute_query exec q s = (Inl (ValueError m), s)
     \<and> list_tables exec s = (Inl (ValueError m), s)
     \<and> get_table_schema exec t s = (Inl (ValueError m), s)
     \<and> sample_table_data exec t n s = (Inl (ValueError m), s)"
proof (intro exI [of _ configuration_missing_message] conjI)
  show "sublist ''configuration is missing'' configuration_missing_message"
    by (rule configuration_missing_contains)
  show "execute_query exec q s = (Inl (ValueError configuration_missing_message), s)"
    using assms by (simp add: execute_query_def)
  show "list_tables exec s = (Inl (ValueError configuration_missing_message), s)"
    using assms by (simp add: list_tables_def)
  show "get_table_schema exec t s = (Inl (ValueError configuration_missing_message), s)"
    using assms by (simp add: get_table_schema_def)
  show "sample_table_data exec t n s = (Inl (ValueError configuration_missing_message), s)"
    using assms by (simp add: sample_table_data_def)
qed

text \<open>
  The theorem at the configuration of \<open>test_missing_config_cluster_url\<close>: cluster
  URL and database both empty.
\<close>

theorem missing_configuration_is_rejected_witness:
  "cluster_url (config missing_config_state) = []
   \<and> (\<exists>m. sublist ''configuration is missing'' m
        \<and> execute_query mock_execute ''test query'' missing_config_state
            = (Inl (ValueError m), missing_config_state)
        \<and> list_tables mock_execute missing_config_state
            = (Inl (ValueError m), missing_config_state)
        \<and> get_table_schema mock_execute ''test_table'' missing_config_state
            = (Inl (ValueError m), missing_config_state)
        \<and> sample_table_data mock_execute ''test_table'' (Some 5) missing_config_state
            = (Inl (ValueError m), missing_config_state))
   \<and> trace missing_config_state = []"
proof -
  have h: "cluster_url (config missing_config_state) = []"
    by (simp add: missing_config_state_def)
  then have "cluster_url (config missing_config_state) = []
      \<or> database (config missing_config_state) = []" ..
  from missing_configuration_is_rejected [OF this] h show ?thesis
    by (simp add: missing_config_state_def)
qed

text \<open>
  Claim C2. When cluster URL and database are non-empty and at least one of tenant
  identity, client identity and client secret is empty or \<open>None\<close>, obtaining the
  client handle fails, and with it each of the four operations, with a \<open>ValueError\<close>
  whose message contains \<open>credentials are missing\<close>. The only call added to the
  trace is the entry into \<open>get_kusto_client\<close>: no client is constructed and nothing
  is executed.
\<close>

theorem missing_credentials_are_rejected:
  assumes "cluster_url (config s) \<noteq> []" and "database (config s) \<noteq> []"
    and "\<not> truthy (tenant_id (config s)) \<or> \<not> truthy (client_id (config s))
         \<or> \<not> truthy (client_secret (config s))"
  shows "\<exists>m. sublist ''credentials are missing'' m
     \<and> get_kusto_client s = (Inl (ValueError m), s\<lparr>trace := trace s @ [GetKustoClient]\<rparr>)
     \<and> execute_query exec q s = (Inl (ValueError m), s\<lparr>trace := trace s @ [GetKustoClient]\<rparr>)
     \<and> list_tables exec s = (Inl (ValueError m), s\<lparr>trace := trace s @ [GetKustoClient]\<rparr>)
     \<and> get_table_schema exec t s = (Inl (ValueError m), s\<lparr>trace := trace s @ [GetKustoClient]\<rparr>)
     \<and> sample_table_data exec t n s
         = (Inl (ValueError m), s\<lparr>trace := trace s @ [GetKustoClient]\<rparr>)"
proof -
  from assms(3) have g: "get_kusto_client s =
     (Inl (ValueError credentials_missing_message), s\<lparr>trace := trace s @ [GetKustoClient]\<rparr>)"
    by (intro get_kusto_client_missing) blast
  show ?thesis
  proof (intro exI [of _ credentials_missing_message] conjI)
    show "sublist ''credentials are missing'' credentials_missing_message"
      by (rule credentials_missing_contains)
    show "get_kusto_client s =
     (Inl (ValueError credentials_missing_message), s\<lparr>trace := trace s @ [GetKustoClient]\<rparr>)"
      by (rule g)
    show "execute_query exec q s =
     (Inl (ValueError credentials_missing_message), s\<lparr>trace := trace s @ [GetKustoClient]\<rparr>)"
      using assms(1,2) by (simp add: execute_query_def g)
    show "list_tables exec s =
     (Inl (ValueError credentials_missing_message), s\<lparr>trace := trace s @ [GetKustoClient]\<rparr>)"
      using assms(1,2) by (simp add: list_tables_def g)
    show "get_table_schema exec t s =
     (Inl (ValueError credentials_missing_message), s\<lparr>trace := trace s @ [GetKustoClient]\<rparr>)"
      using assms(1,2) by (simp add: get_table_schema_def g)
    show "sample_table_data exec t n s =
     (Inl (ValueError credentials_missing_message), s\<lparr>trace := trace s @ [GetKustoClient]\<rparr>)"
      using assms(1,2) by (simp add: sample_table_data_def g)
  qed
qed

text \<open>
  The theorem at the configuration of \<open>test_client_credential_error\<close>: the tenant
  identity is \<open>None\<close>, the other two credentials are set.
\<close>

theorem missing_credentials_are_rejected_witness:
  "tenant_id (config missing_tenant_state) = None
   \<and> (\<exists>m. sublist ''credentials are missing'' m
        \<and> execute_query mock_execute ''test query'' missing_tenant_state
            = (Inl (ValueError m), \<lparr>config = config missing_tenant_state, trace = [GetKustoClient]\<rparr>))"
proof -
  have h: "tenant_id (config missing_tenant_state) = None"
    by (simp add: missing_tenant_state_def)
  have "\<exists>m. sublist ''credentials are missing'' m
     \<and> get_kusto_client missing_tenant_state
         = (Inl (ValueError m), missing_tenant_state\<lparr>trace := trace missing_tenant_state @ [GetKustoClient]\<rparr>)
     \<and> execute_query mock_execute ''test query'' missing_tenant_state
         = (Inl (ValueError m), missing_tenant_state\<lparr>trace := trace missing_tenant_state @ [GetKustoClient]\<rparr>)
     \<and> list_tables mock_execute missing_tenant_state
         = (Inl (ValueError m), missing_tenant_state\<lparr>trace := trace missing_tenant_state @ [GetKustoClient]\<rparr>)
     \<and> get_table_schema mock_execute ''t'' missing_tenant_state
         = (Inl (ValueError m), missing_tenant_state\<lparr>trace := trace missing_tenant_state @ [GetKustoClient]\<rparr>)
     \<and> sample_table_data mock_execute ''t'' None missing_tenant_state
         = (Inl (ValueError m), missing_tenant_state\<lparr>trace := trace missing_tenant_state @ [GetKustoClient]\<rparr>)"
    by (rule missing_credentials_are_rejected)
       (simp_all add: missing_tenant_state_def test_config_def)
  then obtain m where "sublist ''credentials are missing'' m"
    "execute_query mock_execute ''test query'' missing_tenant_state
         = (Inl (ValueError m), missing_tenant_state\<lparr>trace := trace missing_tenant_state @ [GetKustoClient]\<rparr>)"
    by blast
  moreover have "missing_tenant_state\<lparr>trace := trace missing_tenant_state @ [GetKustoClient]\<rparr>
     = \<lparr>config = config missing_tenant_state, trace = [GetKustoClient]\<rparr>"
    by (simp add: missing_tenant_state_def)
  ultimately show ?thesis using h by auto
qed

subsection \<open>The queries that are executed\<close>

text \<open>
  Claim C5. With a configuration that passes both checks, \<open>execute_query(q)\<close>
  obtains a client, makes one call \<open>execute(database, q)\<close> with the configured
  database name and the caller's string \<open>q\<close> as it is, and returns the normalization
  of the result of that call (an error raised by \<open>execute\<close> is passed on).
\<close>

theorem execute_query_passes_query_verbatim:
  assumes "cluster_url (config s) \<noteq> []" and "database (config s) \<noteq> []"
    and "truthy (tenant_id (config s))" and "truthy (client_id (config s))"
    and "truthy (client_secret (config s))"
  shows "execute_query exec q s =
     ((case exec (configured_client (config s)) (database (config s)) q of
         Inl e \<Rightarrow> Inl e
       | Inr result_set \<Rightarrow> format_query_results result_set),
      s\<lparr>trace := trace s @ [GetKustoClient, ClientConstructed (configured_client (config s)),
                              Execute (configured_client (config s)) (database (config s)) q]\<rparr>)"
  using assms(1,2) by (simp add: execute_query_def operation_with_client [OF assms(3-5)])

text \<open>
  The theorem at the data of \<open>test_execute_query\<close>: the call is
  \<open>execute("testdb", "test query")\<close> and the two records of the mocked result set
  are returned.
\<close>

theorem execute_query_passes_query_verbatim_witness:
  "execute_query mock_execute ''test query'' test_state =
     (Inr test_records,
      \<lparr>config = test_config,
       trace = [GetKustoClient, ClientConstructed (configured_client test_config),
                Execute (configured_client test_config) ''testdb'' ''test query'']\<rparr>)"
proof -
  have "execute_query mock_execute ''test query'' test_state =
     ((case mock_execute (configured_client (config test_state)) (database (config test_state))
             ''test query'' of
         Inl e \<Rightarrow> Inl e
       | Inr result_set \<Rightarrow> format_query_results result_set),
      test_state\<lparr>trace := trace test_state @
         [GetKustoClient, ClientConstructed (configured_client (config test_state)),
          Execute (configured_client (config test_state)) (database (config test_state))
            ''test query'']\<rparr>)"
    by (rule execute_query_passes_query_verbatim) (simp_all add: test_state_simps)
  then show ?thesis
    by (simp add: mock_execute_def format_test_result_set test_state_simps)
qed

text \<open>
  Claim C6. An invocation of \<open>list_tables\<close> that returns records is exactly this:
  a client is obtained, one call \<open>execute(database, query)\<close> is made on the
  configured database with the query
  \<open>.show tables | project TableName, Folder, DatabaseName\<close>, which contains
  \<open>.show tables\<close>, and the normalization of the result of that call is returned.
  The trace gains that one \<open>execute\<close> call and no other.
\<close>

theorem list_tables_issues_one_fixed_query:
  assumes "fst (list_tables exec s) = Inr recs"
  shows "list_tables exec s =
     ((case exec (configured_client (config s)) (database (config s))
             ''.show tables | project TableName, Folder, DatabaseName'' of
         Inl e \<Rightarrow> Inl e
       | Inr result_set \<Rightarrow> format_query_results result_set),
      s\<lparr>trace := trace s @ [GetKustoClient, ClientConstructed (configured_client (config s)),
                              Execute (configured_client (config s)) (database (config s))
                                ''.show tables | project TableName, Folder, DatabaseName'']\<rparr>)
     \<and> sublist ''.show tables'' ''.show tables | project TableName, Folder, DatabaseName''"
proof -
  from assms have "cluster_url (config s) \<noteq> [] \<and> database (config s) \<noteq> []
     \<and> truthy (tenant_id (config s)) \<and> truthy (client_id (config s))
     \<and> truthy (client_secret (config s))"
    unfolding list_tables_def Let_def by (rule operation_success_ready)
  then have "list_tables exec s =
     ((case exec (configured_client (config s)) (database (config s))
             ''.show tables | project TableName, Folder, DatabaseName'' of
         Inl e \<Rightarrow> Inl e
       | Inr result_set \<Rightarrow> format_query_results result_set),
      s\<lparr>trace := trace s @ [GetKustoClient, ClientConstructed (configured_client (config s)),
                              Execute (configured_client (config s)) (database (config s))
                                ''.show tables | project TableName, Folder, DatabaseName'']\<rparr>)"
    by (simp add: list_tables_def get_kusto_client_present execute_and_format_eq Let_def)
  moreover have "sublist ''.show tables''
      (''.show tables'' @ '' | project TableName, Folder, DatabaseName'')"
    by (rule sublist_append_rightI)
  ultimately show ?thesis by simp
qed

text \<open>
  The theorem at the test configuration with the mocked client: the invocation
  returns the records of the mocked result set and has made the one call, on
  \<open>testdb\<close>.
\<close>

theorem list_tables_issues_one_fixed_query_witness:
  "fst (list_tables mock_execute test_state) = Inr test_records
   \<and> list_tables mock_execute test_state =
       (Inr test_records,
        \<lparr>config = test_config,
         trace = [GetKustoClient, ClientConstructed (configured_client test_config),
                  Execute (configured_client test_config) ''testdb''
                    ''.show tables | project TableName, Folder, DatabaseName'']\<rparr>)"
proof -
  have ok: "fst (list_tables mock_execute test_state) = Inr test_records"
    by (simp add: list_tables_def get_kusto_client_present execute_and_format_eq
        test_state_simps mock_execute_def format_test_result_set)
  from list_tables_issues_one_fixed_query [OF ok] ok show ?thesis
    by (simp add: mock_execute_def format_test_result_set test_state_simps)
qed

text \<open>
  Claim C7. With a configuration that passes both checks, \<open>get_table_schema(t)\<close>
  is exactly this: a client is obtained, one call \<open>execute(database, query)\<close> is
  made on the configured database, and the normalization of the result of that call
  is returned (an error raised by \<open>execute\<close> is passed on). The query is
  \<open>.show table \<close>, then \<open>t\<close> unchanged, then \<open> | getschema\<close>, so it contains
  \<open>.show table t\<close> and \<open>getschema\<close>. The trace gains that one \<open>execute\<close> call
  and no other.
\<close>

theorem get_table_schema_query:
  assumes "cluster_url (config s) \<noteq> []" and "database (config s) \<noteq> []"
    and "truthy (tenant_id (config s))" and "truthy (client_id (config s))"
    and "truthy (client_secret (config s))"
  shows "get_table_schema exec t s =
     ((case exec (configured_client (config s)) (database (config s))
             (''.show table '' @ t @ '' | getschema'') of
         Inl e \<Rightarrow> Inl e
       | Inr result_set \<Rightarrow> format_query_results result_set),
      s\<lparr>trace := trace s @ [GetKustoClient, ClientConstructed (configured_client (config s)),
                              Execute (configured_client (config s)) (database (config s))
                                (''.show table '' @ t @ '' | getschema'')]\<rparr>)
     \<and> sublist (''.show table '' @ t) (''.show table '' @ t @ '' | getschema'')
     \<and> sublist ''getschema'' (''.show table '' @ t @ '' | getschema'')"
proof -
  have "get_table_schema exec t s =
     ((case exec (configured_client (config s)) (database (config s))
             (''.show table '' @ t @ '' | getschema'') of
         Inl e \<Rightarrow> Inl e
       | Inr result_set \<Rightarrow> format_query_results result_set),
      s\<lparr>trace := trace s @ [GetKustoClient, ClientConstructed (configured_client (config s)),
                              Execute (configured_client (config s)) (database (config s))
                                (''.show table '' @ t @ '' | getschema'')]\<rparr>)"
    using assms(1,2)
    by (simp add: get_table_schema_def get_kusto_client_present [OF assms(3-5)]
        execute_and_format_eq Let_def)
  moreover have "sublist (''.show table '' @ t) ((''.show table '' @ t) @ '' | getschema'')"
    by (rule sublist_append_rightI)
  moreover have "sublist ''getschema'' ((''.show table '' @ t @ '' | '') @ ''getschema'')"
    by (rule sublist_append_leftI)
  ultimately show ?thesis by simp
qed

text \<open>
  The theorem at the table name of \<open>test_get_table_schema\<close> with the mocked client:
  the call is \<open>execute("testdb", ".show table test_table | getschema")\<close> and the
  records of the mocked result set are returned.
\<close>

theorem get_table_schema_query_witness:
  "get_table_schema mock_execute ''test_table'' test_state =
     (Inr test_records,
      \<lparr>config = test_config,
       trace = [GetKustoClient, ClientConstructed (configured_client test_config),
                Execute (configured_client test_config) ''testdb''
                  ''.show table test_table | getschema'']\<rparr>)"
  using get_table_schema_query [of test_state mock_execute "''test_table''"]
  by (simp add: mock_execute_def format_test_result_set test_state_simps)

text \<open>
  Claim C8. With a configuration that passes both checks,
  \<open>sample_table_data(t, n)\<close> is exactly this: a client is obtained, one call
  \<open>execute(database, query)\<close> is made on the configured database, and the
  normalization of the result of that call is returned (an error raised by
  \<open>execute\<close> is passed on). The query is \<open>t\<close>, then \<open> | sample \<close>, then \<open>n\<close>
  in decimal, so it contains \<open>t\<close> and \<open>sample n\<close>; with the sample size omitted
  the query is \<open>t\<close>, then \<open> | sample 10\<close>, and contains \<open>sample 10\<close>. The trace
  gains that one \<open>execute\<close> call and no other.
\<close>

theorem sample_table_data_query:
  assumes "cluster_url (config s) \<noteq> []" and "database (config s) \<noteq> []"
    and "truthy (tenant_id (config s))" and "truthy (client_id (config s))"
    and "truthy (client_secret (config s))"
  shows "sample_table_data exec t (Some n) s =
     ((case exec (configured_client (config s)) (database (config s))
             (t @ '' | sample '' @ str_int n) of
         Inl e \<Rightarrow> Inl e
       | Inr result_set \<Rightarrow> format_query_results result_set),
      s\<lparr>trace := trace s @ [GetKustoClient, ClientConstructed (configured_client (config s)),
                              Execute (configured_client (config s)) (database (config s))
                                (t @ '' | sample '' @ str_int n)]\<rparr>)
     \<and> sample_table_data exec t None s =
     ((case exec (configured_client (config s)) (database (config s))
             (t @ '' | sample 10'') of
         Inl e \<Rightarrow> Inl e
       | Inr result_set \<Rightarrow> format_query_results result_set),
      s\<lparr>trace := trace s @ [GetKustoClient, ClientConstructed (configured_client (config s)),
                              Execute (configured_client (config s)) (database (config s))
                                (t @ '' | sample 10'')]\<rparr>)
     \<and> sublist t (t @ '' | sample '' @ str_int n)
     \<and> sublist (''sample '' @ str_int n) (t @ '' | sample '' @ str_int n)
     \<and> sublist ''sample 10'' (t @ '' | sample 10'')"
proof -
  have a: "sample_table_data exec t (Some n) s =
     ((case exec (configured_client (config s)) (database (config s))
             (t @ '' | sample '' @ str_int n) of
         Inl e \<Rightarrow> Inl e
       | Inr result_set \<Rightarrow> format_query_results result_set),
      s\<lparr>trace := trace s @ [GetKustoClient, ClientConstructed (configured_client (config s)),
                              Execute (configured_client (config s)) (database (config s))
                                (t @ '' | sample '' @ str_int n)]\<rparr>)"
    using assms(1,2)
    by (simp add: sample_table_data_def get_kusto_client_present [OF assms(3-5)]
        execute_and_format_eq Let_def)
  have b: "sample_table_data exec t None s =
     ((case exec (configured_client (config s)) (database (config s))
             (t @ '' | sample 10'') of
         Inl e \<Rightarrow> Inl e
       | Inr result_set \<Rightarrow> format_query_results result_set),
      s\<lparr>trace := trace s @ [GetKustoClient, ClientConstructed (configured_client (config s)),
                              Execute (configured_client (config s)) (database (config s))
                                (t @ '' | sample 10'')]\<rparr>)"
    using assms(1,2)
    by (simp add: sample_table_data_def get_kusto_client_present [OF assms(3-5)]
        execute_and_format_eq Let_def str_int_examples)
  have c: "sublist t (t @ '' | sample '' @ str_int n)"
    by (rule sublist_append_rightI)
  have "sublist (''sample '' @ str_int n) ((t @ '' | '') @ ''sample '' @ str_int n)"
    by (rule sublist_append_leftI)
  then have d: "sublist (''sample '' @ str_int n) (t @ '' | sample '' @ str_int n)" by simp
  have "sublist ''sample 10'' ((t @ '' | '') @ ''sample 10'')"
    by (rule sublist_append_leftI)
  then have e: "sublist ''sample 10'' (t @ '' | sample 10'')" by simp
  from a b c d e show ?thesis by (intro conjI)
qed

text \<open>
  The theorem at the arguments of \<open>test_sample_table_data\<close> (sample size 5) with the
  mocked client, and with the sample size omitted: the queries are
  \<open>test_table | sample 5\<close> and \<open>test_table | sample 10\<close>, and the records of the
  mocked result set are returned.
\<close>

theorem sample_table_data_query_witness:
  "sample_table_data mock_execute ''test_table'' (Some 5) test_state =
     (Inr test_records,
      \<lparr>config = test_config,
       trace = [GetKustoClient, ClientConstructed (configured_client test_config),
                Execute (configured_client test_config) ''testdb'' ''test_table | sample 5'']\<rparr>)
   \<and> sample_table_data mock_execute ''test_table'' None test_state =
     (Inr test_records,
      \<lparr>config = test_config,
       trace = [GetKustoClient, ClientConstructed (configured_client test_config),
                Execute (configured_client test_config) ''testdb'' ''test_table | sample 10'']\<rparr>)"
  using sample_table_data_query [of test_state mock_execute "''test_table''" 5]
  by (simp add: mock_execute_def format_test_result_set test_state_simps str_int_examples)

section \<open>The configuration is only read\<close>

lemma config_get_kusto_client: "config (snd (get_kusto_client s)) = config s"
  by (simp add: get_kusto_client_def Let_def)

lemma config_execute_and_format:
  "config (snd (execute_and_format exec client query s)) = config s"
  by (simp add: execute_and_format_def client_execute_def split: sum.splits)

lemma config_after_client:
  "get_kusto_client s = (r, s1) \<Longrightarrow> config s1 = config s"
  using config_get_kusto_client [of s] by simp

text \<open>
  Claim C9. Each of the four operations returns a state whose configuration (all five
  fields) is the one it started with, whatever the outcome of the call: a
  configuration error, a credentials error, an error of the client library, or a
  result.
\<close>

theorem operations_preserve_config:
  "config (snd (execute_query exec q s)) = config s
   \<and> config (snd (list_tables exec s)) = config s
   \<and> config (snd (get_table_schema exec t s)) = config s
   \<and> config (snd (sample_table_data exec t n s)) = config s"
proof -
  have a: "config (snd (execute_query exec q s)) = config s"
    by (auto simp: execute_query_def config_execute_and_format
        split: prod.splits sum.splits dest: config_after_client)
  have b: "config (snd (list_tables exec s)) = config s"
    by (auto simp: list_tables_def config_execute_and_format
        split: prod.splits sum.splits dest: config_after_client)
  have c: "config (snd (get_table_schema exec t s)) = config s"
    by (auto simp: get_table_schema_def config_execute_and_format
        split: prod.splits sum.splits dest: config_after_client)
  have d: "config (snd (sample_table_data exec t n s)) = config s"
    by (auto simp: sample_table_data_def Let_def config_execute_and_format
        split: prod.splits sum.splits dest: config_after_client)
  from a b c d show ?thesis by simp
qed

end
